theory Spec2Isabelle
  imports Complex_Main
begin

section \<open>Transcript synchronizer (components/videos/interactive-transcript.tsx)\<close>

text \<open>
  A JavaScript \<open>number\<close> that holds a media time or a confidence is a finite double; the
  component only compares such values, so they are embedded in \<^typ>\<open>real\<close>, whose order
  agrees with the order of finite doubles. A decimal literal (\<open>0.7\<close>, \<open>0.9\<close>) stands for
  the double nearest to it; what is proved below depends on the order of the literals only.
\<close>

text \<open>
  \<^verbatim>\<open>interface Word { word: string; start: number; end: number; confidence: number;
                   punctuated_word?: string }\<close>
  (\<open>end\<close> is written \<open>end'\<close>).
\<close>

record Word =
  word :: string
  start :: real
  end' :: real
  confidence :: real
  punctuated_word :: "string option"

text \<open>
  \<^verbatim>\<open>Array.prototype.findIndex\<close>: visits the elements in ascending index order with a counter
  \<open>k\<close>, returns \<open>k\<close> at the first element the predicate accepts and \<open>-1\<close> when none is.
\<close>

fun findIndex_from :: "('a \<Rightarrow> bool) \<Rightarrow> 'a list \<Rightarrow> int \<Rightarrow> int" where
  "findIndex_from p [] k = - 1"
| "findIndex_from p (x # xs) k = (if p x then k else findIndex_from p xs (k + 1))"

definition findIndex :: "('a \<Rightarrow> bool) \<Rightarrow> 'a list \<Rightarrow> int" where
  "findIndex p xs = findIndex_from p xs 0"

text \<open>
  The lookup that the timer callback of the effect performs (lines 52--54):
  \<^verbatim>\<open>words.findIndex((word) => currentTime >= word.start && currentTime <= word.end)\<close>
\<close>

definition locateCurrentWord :: "Word list \<Rightarrow> real \<Rightarrow> int" where
  "locateCurrentWord words currentTime =
     findIndex (\<lambda>word. currentTime \<ge> start word \<and> currentTime \<le> end' word) words"

text \<open>
  The effect of lines 45--73, as the value it passes to \<open>setCurrentWordIndex\<close>: \<open>-1\<close> at
  once when highlighting is off or there are no words, the lookup's result otherwise (once
  the 50 ms timer has fired).
\<close>

definition currentWordIndex_effect :: "bool \<Rightarrow> Word list \<Rightarrow> real \<Rightarrow> int" where
  "currentWordIndex_effect highlightCurrentWord words currentTime =
     (if \<not> highlightCurrentWord \<or> length words = 0 then - 1
      else locateCurrentWord words currentTime)"

text \<open>
  \<^verbatim>\<open>handleWordClick = (word) => { onWordClick(word.start) }\<close>. The callback is a prop; its
  effect is a transformer of the caller's state \<open>'s\<close> (the player, in the page that uses the
  component).
\<close>

definition handleWordClick :: "(real \<Rightarrow> 's \<Rightarrow> 's) \<Rightarrow> Word \<Rightarrow> 's \<Rightarrow> 's" where
  "handleWordClick onWordClick w = onWordClick (start w)"

text \<open>
  The button rendered for index \<open>i\<close> of \<open>words.map\<close> has
  \<^verbatim>\<open>onClick={() => handleWordClick(word)}\<close>; there is a button for every index below
  \<open>words.length\<close> and for no other.
\<close>

definition click_word :: "(real \<Rightarrow> 's \<Rightarrow> 's) \<Rightarrow> Word list \<Rightarrow> nat \<Rightarrow> 's \<Rightarrow> 's" where
  "click_word onWordClick words i s =
     (if i < length words then handleWordClick onWordClick (words ! i) s else s)"

text \<open>The two confidence classifications of lines 82--92, branch by branch.\<close>

definition getConfidenceColor :: "real \<Rightarrow> string" where
  "getConfidenceColor c =
     (if c \<ge> 0.7 then ''text-green-600''
      else if c \<ge> 0.7 then ''text-yellow-600''
      else ''text-red-600'')"

definition getConfidenceBadge :: "real \<Rightarrow> string" where
  "getConfidenceBadge c =
     (if c \<ge> 0.9 then ''High''
      else if c \<ge> 0.7 then ''Medium''
      else ''Low'')"

text \<open>The rank of a band: low 0, medium 1, high 2.\<close>

definition band_rank :: "string \<Rightarrow> nat" where
  "band_rank b =
     (if b = ''High'' \<or> b = ''text-green-600'' then 2
      else if b = ''Medium'' \<or> b = ''text-yellow-600'' then 1
      else 0)"

section \<open>Run-time values\<close>

text \<open>
  The values that reach the program untyped (\<open>any\<close>): the parsed body of a webhook
  request, the JSON columns of a video row, the \<open>transcriptData\<close> prop. An object is the
  list of its own properties, the first binding of a key being the property's value.
\<close>

datatype jsval =
    JUndefined
  | JNull
  | JBool bool
  | JNum real
  | JStr string
  | JArr "jsval list"
  | JObj "(string \<times> jsval) list"

text \<open>
  What a \<open>try\<close> block can catch: the \<open>TypeError\<close> of reading a property of \<open>undefined\<close>
  or \<open>null\<close>, the \<open>SyntaxError\<close> of \<open>request.json()\<close> on a body that is not JSON, and an
  \<open>Error\<close> instance with its message, thrown by a library (the platform client, the
  schema validator). \<open>ZodError\<close> is the schema validator's error, with the message
  the schema gives for the failed test (the text of the error's own \<open>message\<close> property
  is the validator's rendering of its issue list). \<open>InvalidChild\<close> is the rendering
  library's error for an object given as the child of an element.
\<close>

datatype exn = TypeError | SyntaxError | LibError string | ZodError string | InvalidChild

text \<open>
  \<open>v.k\<close>, for a property name \<open>k\<close> that no prototype defines (every name read in this
  program is one), with the receiver's own evaluation threaded through: an exception
  raised while computing the receiver is the exception of the whole chain.
\<close>

fun getProp :: "string \<Rightarrow> exn + jsval \<Rightarrow> exn + jsval" where
  "getProp k (Inl e) = Inl e"
| "getProp k (Inr JUndefined) = Inl TypeError"
| "getProp k (Inr JNull) = Inl TypeError"
| "getProp k (Inr (JObj kvs)) = Inr (case map_of kvs k of None \<Rightarrow> JUndefined | Some v \<Rightarrow> v)"
| "getProp k (Inr v) = Inr JUndefined"

text \<open>
  \<open>v[0]\<close>: the first element of an array, the first character of a string, the property
  \<open>"0"\<close> of an object; \<open>undefined\<close> where there is none.
\<close>

fun index0 :: "exn + jsval \<Rightarrow> exn + jsval" where
  "index0 (Inl e) = Inl e"
| "index0 (Inr JUndefined) = Inl TypeError"
| "index0 (Inr JNull) = Inl TypeError"
| "index0 (Inr (JArr xs)) = Inr (case xs of [] \<Rightarrow> JUndefined | x # _ \<Rightarrow> x)"
| "index0 (Inr (JStr s)) = Inr (case s of [] \<Rightarrow> JUndefined | c # _ \<Rightarrow> JStr [c])"
| "index0 (Inr (JObj kvs)) = Inr (case map_of kvs ''0'' of None \<Rightarrow> JUndefined | Some v \<Rightarrow> v)"
| "index0 (Inr v) = Inr JUndefined"

text \<open>
  \<open>data?.rest\<close>: when \<open>data\<close> is \<open>undefined\<close> or \<open>null\<close> the whole chain is \<open>undefined\<close>
  and \<open>rest\<close> is not evaluated.
\<close>

definition optional_chain :: "jsval \<Rightarrow> (exn + jsval \<Rightarrow> exn + jsval) \<Rightarrow> exn + jsval" where
  "optional_chain data rest =
     (if data = JUndefined \<or> data = JNull then Inr JUndefined else rest (Inr data))"

text \<open>
  The text of a value in a template literal (\<^verbatim>\<open>`eq.${value}`\<close>): a string is itself, an
  array is the texts of its elements joined by commas, \<open>undefined\<close> and \<open>null\<close> elements
  giving the empty text, and an object is \<open>[object Object]\<close>. The text of a number is
  the run-time's (\<open>Number::toString\<close>) and is passed in as \<open>number_text\<close>.
\<close>

fun join_comma :: "string list \<Rightarrow> string" where
  "join_comma [] = []"
| "join_comma [t] = t"
| "join_comma (t # ts) = t @ '','' @ join_comma ts"

fun js_text :: "(real \<Rightarrow> string) \<Rightarrow> jsval \<Rightarrow> string" where
  "js_text number_text JUndefined = ''undefined''"
| "js_text number_text JNull = ''null''"
| "js_text number_text (JBool b) = (if b then ''true'' else ''false'')"
| "js_text number_text (JNum r) = number_text r"
| "js_text number_text (JStr t) = t"
| "js_text number_text (JArr xs) =
     join_comma
       (map (\<lambda>x. if x = JUndefined \<or> x = JNull then [] else js_text number_text x) xs)"
| "js_text number_text (JObj kvs) = ''[object Object]''"

section \<open>Record store and server actions (app/actions/videos.ts)\<close>

datatype video_status = Uploaded | Transcribing | Transcribed | Error

text \<open>
  A row of the \<open>videos\<close> table: the fields of \<open>interface Video\<close> that the actions read or
  write, and the \<open>deepgram_request_id\<close> column that \<open>transcribeVideo\<close> and
  \<open>updateTranscript\<close> use (a text column, \<open>None\<close> while no request was issued).
\<close>

record video_row =
  video_id :: string
  project_id :: string
  storage_path :: string
  status :: video_status
  transcript_text :: jsval
  transcript_data_full :: jsval
  deepgram_request_id :: "string option"

record project_row =
  proj_id :: string
  user_id :: string

text \<open>
  A deletion the program asks of the platform: of the video rows with a given id, or of
  the storage object at a given path.
\<close>

datatype deletion = RecordDelete string | FileRemove string

text \<open>
  The state the actions work on: the two tables, the object paths of the \<open>videos\<close> storage
  bucket, the paths handed to \<open>revalidatePath\<close> (latest first), and the deletions asked
  of the platform so far (latest first), whether they succeeded or not.
\<close>

record store =
  videos :: "video_row list"
  projects :: "project_row list"
  files :: "string set"
  revalidated :: "string list"
  deletions :: "deletion list"

text \<open>
  What the hosted platform answers during one call of an action. These outcomes are
  decided outside the program, so they are inputs of the model:
  \<^item> \<open>createClient_throws\<close>: \<open>Some m\<close> when \<open>createClient()\<close> throws an \<open>Error\<close> with
    message \<open>m\<close>;
  \<^item> \<open>auth_user\<close>: the id of the user \<open>supabase.auth.getUser()\<close> reports, \<open>None\<close> when it
    reports an error or no user;
  \<^item> \<open>update_error\<close>, \<open>delete_error\<close>, \<open>remove_error\<close>, \<open>upload_error\<close>: the table
    update, the table delete, the storage \<open>remove\<close> and the storage \<open>upload\<close> report an
    error (and then change nothing);
  \<^item> \<open>number_text\<close>: the text the run-time gives a number, where the client writes a
    filter value into its request.
\<close>

record backend =
  createClient_throws :: "string option"
  auth_user :: "string option"
  update_error :: bool
  delete_error :: bool
  remove_error :: bool
  upload_error :: bool
  number_text :: "real \<Rightarrow> string"

text \<open>
  \<^verbatim>\<open>type ActionResult<T> = { success: boolean; data?: T; error?: string }\<close>
  (\<open>data\<close> is written \<open>data'\<close>). The \<open>error\<close>
  field holds a message, or (in \<open>updateTranscript\<close>'s \<open>catch\<close>, which stores
  \<open>error as string\<close>) the caught value itself, or the \<open>message\<close> property of a caught
  error whose text the library composes.
\<close>

datatype err_field = Msg string | Thrown exn | MessageOf exn

record 'a ActionResult =
  success :: bool
  data' :: "'a option"
  error :: "err_field option"

definition succeed :: "'a option \<Rightarrow> 'a ActionResult" where
  "succeed d = \<lparr>success = True, data' = d, error = None\<rparr>"

definition fail :: "err_field \<Rightarrow> 'a ActionResult" where
  "fail e = \<lparr>success = False, data' = None, error = Some e\<rparr>"

text \<open>
  \<open>.eq("deepgram_request_id", requestId)\<close> on the text column: the client writes the
  argument into the filter as text (\<^verbatim>\<open>`eq.${value}`\<close>), and a row matches when its
  column is that text; a row whose column is empty (\<open>None\<close>) matches nothing.
\<close>

definition eq_request_id :: "(real \<Rightarrow> string) \<Rightarrow> jsval \<Rightarrow> video_row \<Rightarrow> bool" where
  "eq_request_id nt requestId r = (deepgram_request_id r = Some (js_text nt requestId))"

text \<open>
  A column of the update's body: the body is sent as JSON, which drops a property whose
  value is \<open>undefined\<close>, so such a column keeps its old value.
\<close>

definition set_column :: "jsval \<Rightarrow> jsval \<Rightarrow> jsval" where
  "set_column v old = (if v = JUndefined then old else v)"

text \<open>
  \<^verbatim>\<open>.update({ transcript_text: transcriptText, transcript_data_full: transcriptData,
            status: "transcribed" })\<close> applied to one row.
\<close>

definition transcript_update :: "jsval \<Rightarrow> jsval \<Rightarrow> video_row \<Rightarrow> video_row" where
  "transcript_update transcriptText transcriptData r =
     r\<lparr>transcript_text := set_column transcriptText (transcript_text r),
       transcript_data_full := set_column transcriptData (transcript_data_full r),
       status := Transcribed\<rparr>"

text \<open>\<open>updateTranscript\<close> (lines 32--58): the result and the store afterwards.\<close>

definition updateTranscript ::
  "backend \<Rightarrow> store \<Rightarrow> jsval \<Rightarrow> jsval \<Rightarrow> jsval \<Rightarrow> unit ActionResult \<times> store" where
  "updateTranscript be st requestId transcriptText transcriptData =
     (case createClient_throws be of
        Some m \<Rightarrow> (fail (Thrown (LibError m)), st)
      | None \<Rightarrow>
          if update_error be then (fail (Msg ''Failed to update transcript''), st)
          else (succeed None,
                st\<lparr>videos :=
                     map (\<lambda>r. if eq_request_id (number_text be) requestId r
                               then transcript_update transcriptText transcriptData r else r)
                       (videos st)\<rparr>))"

text \<open>\<open>.single()\<close>: the row when the query finds exactly one, an error otherwise.\<close>

fun single :: "'a list \<Rightarrow> 'a option" where
  "single [x] = Some x"
| "single xs = None"

text \<open>
  The inner join \<open>projects!inner(user_id)\<close> filtered by \<open>projects.user_id\<close>: the video's
  project exists and belongs to the user.
\<close>

definition owned_by :: "store \<Rightarrow> string \<Rightarrow> video_row \<Rightarrow> bool" where
  "owned_by st u v =
     list_ex (\<lambda>p. proj_id p = project_id v \<and> user_id p = u) (projects st)"

text \<open>
  \<open>deleteVideoFile\<close> (lines 674--705). Once the client exists and a user is signed in,
  the storage \<open>remove\<close> is asked for; an error it reports is logged and the function still
  returns success. The \<open>catch\<close> turns a thrown \<open>Error\<close> into its message.
\<close>

definition deleteVideoFile :: "backend \<Rightarrow> store \<Rightarrow> string \<Rightarrow> unit ActionResult \<times> store" where
  "deleteVideoFile be st storagePath =
     (case createClient_throws be of
        Some m \<Rightarrow> (fail (Msg m), st)
      | None \<Rightarrow>
          (case auth_user be of
             None \<Rightarrow> (fail (Msg ''Authentication required''), st)
           | Some u \<Rightarrow>
               (let st1 = st\<lparr>deletions := FileRemove storagePath # deletions st\<rparr>
                in if remove_error be then (succeed None, st1)
                   else (succeed None, st1\<lparr>files := files st1 - {storagePath}\<rparr>))))"

text \<open>
  \<open>deleteVideo\<close> (lines 710--769). \<open>is_uuid\<close> stands for the test of
  \<open>videoIdSchema.parse\<close> (\<^verbatim>\<open>z.uuid("Invalid video ID")\<close>), which throws for an id that
  fails it. The nested call of \<open>deleteVideoFile\<close> creates its own client and asks for the
  user again, so it has its own outcomes \<open>be_file\<close>; its result is awaited and dropped.
\<close>

definition deleteVideo ::
  "(string \<Rightarrow> bool) \<Rightarrow> backend \<Rightarrow> backend \<Rightarrow> store \<Rightarrow> string \<Rightarrow>
     unit ActionResult \<times> store" where
  "deleteVideo is_uuid be be_file st id' =
     (if \<not> is_uuid id' then (fail (MessageOf (ZodError ''Invalid video ID'')), st)
      else
        (case createClient_throws be of
           Some m \<Rightarrow> (fail (Msg m), st)
         | None \<Rightarrow>
             (case auth_user be of
                None \<Rightarrow> (fail (Msg ''Authentication required''), st)
              | Some u \<Rightarrow>
                  (case single (filter (\<lambda>v. video_id v = id' \<and> owned_by st u v) (videos st)) of
                     None \<Rightarrow> (fail (Msg ''Video not found or access denied''), st)
                   | Some existingVideo \<Rightarrow>
                       (let st0 = st\<lparr>deletions := RecordDelete id' # deletions st\<rparr>
                        in if delete_error be then (fail (Msg ''Failed to delete video''), st0)
                           else
                             (let st1 = st0\<lparr>videos := filter (\<lambda>v. video_id v \<noteq> id')
                                                            (videos st0)\<rparr>;
                                  st2 = (if storage_path existingVideo \<noteq> []
                                         then snd (deleteVideoFile be_file st1
                                                     (storage_path existingVideo))
                                         else st1)
                              in (succeed None,
                                  st2\<lparr>revalidated :=
                                        ''/videos'' #
                                        (''/projects/'' @ project_id existingVideo) #
                                        revalidated st2\<rparr>)))))))"

text \<open>
  The form data of an upload. \<open>formData.get\<close> gives a \<open>File\<close>, a string, or \<open>null\<close> for a
  missing entry (\<open>None\<close>); of a \<open>File\<close> the action reads \<open>name\<close>, \<open>size\<close> and \<open>type\<close>.
\<close>

record File =
  file_name :: string
  file_size :: nat
  file_type :: string

datatype form_entry = FileEntry File | StringEntry string

record upload_form =
  form_file :: "form_entry option"
  form_projectId :: "form_entry option"

text \<open>\<open>!x\<close> for an entry: \<open>null\<close> and the empty string are falsy.\<close>

definition falsy :: "form_entry option \<Rightarrow> bool" where
  "falsy x = (case x of None \<Rightarrow> True | Some (StringEntry s) \<Rightarrow> s = [] | Some (FileEntry f) \<Rightarrow> False)"

text \<open>
  \<open>file.size > maxSize\<close> and \<open>allowedTypes.includes(file.type)\<close>. When the entry is a
  string the two properties are \<open>undefined\<close>: the comparison is false and the list does not
  include it.
\<close>

definition maxSize :: nat where
  "maxSize = 100 * 1024 * 1024"

definition allowedTypes :: "string list" where
  "allowedTypes = [''video/mp4'', ''video/mov'', ''video/avi'', ''video/webm'', ''video/quicktime'']"

definition size_over :: "form_entry \<Rightarrow> bool" where
  "size_over e = (case e of FileEntry f \<Rightarrow> file_size f > maxSize | StringEntry s \<Rightarrow> False)"

definition type_allowed :: "form_entry \<Rightarrow> bool" where
  "type_allowed e = (case e of FileEntry f \<Rightarrow> file_type f \<in> set allowedTypes | StringEntry s \<Rightarrow> False)"

text \<open>\<open>s.split(".")\<close> and \<open>file.name.split(".").pop()\<close>.\<close>

fun split_dot :: "string \<Rightarrow> string list" where
  "split_dot [] = [[]]"
| "split_dot (c # cs) =
     (if c = CHR ''.'' then [] # split_dot cs
      else (case split_dot cs of [] \<Rightarrow> [[c]] | seg # segs \<Rightarrow> (c # seg) # segs))"

definition fileExt :: "string \<Rightarrow> string" where
  "fileExt name = last (split_dot name)"

text \<open>
  \<open>uploadVideoFile\<close> (lines 172--269). \<open>unique\<close> is the text of
  \<^verbatim>\<open>${Date.now()}_${Math.random().toString(36).substring(2)}\<close> and \<open>publicUrl_of\<close> the
  platform's \<open>getPublicUrl\<close>; both are decided outside the program. The project lookup
  compares ids as strings, so an entry that is a \<open>File\<close> names no project.
\<close>

definition uploadVideoFile ::
  "string \<Rightarrow> (string \<Rightarrow> string) \<Rightarrow> backend \<Rightarrow> store \<Rightarrow> upload_form \<Rightarrow>
     (string \<times> string) ActionResult \<times> store" where
  "uploadVideoFile unique publicUrl_of be st formData =
     (if falsy (form_file formData) then (fail (Msg ''No file provided''), st)
      else if falsy (form_projectId formData) then (fail (Msg ''Project ID is required''), st)
      else if size_over (the (form_file formData))
        then (fail (Msg ''File size must be less than 100MB''), st)
      else if \<not> type_allowed (the (form_file formData))
        then (fail (Msg ''File type not supported. Please use MP4, MOV, AVI, or WebM''), st)
      else
        (case createClient_throws be of
           Some m \<Rightarrow> (fail (Msg m), st)
         | None \<Rightarrow>
             (case auth_user be of
                None \<Rightarrow> (fail (Msg ''Authentication required''), st)
              | Some u \<Rightarrow>
                  (case (form_file formData, form_projectId formData) of
                     (Some (FileEntry f), Some (StringEntry projectId)) \<Rightarrow>
                       (case single (filter (\<lambda>p. proj_id p = projectId \<and> user_id p = u)
                                       (projects st)) of
                          None \<Rightarrow> (fail (Msg ''Project not found or access denied''), st)
                        | Some project \<Rightarrow>
                            (let fileName = unique @ ''.'' @ fileExt (file_name f);
                                 storagePath = ''videos/'' @ projectId @ ''/'' @ fileName
                             in if upload_error be
                                then (fail (Msg ''Failed to upload file''), st)
                                else (succeed (Some (storagePath, publicUrl_of storagePath)),
                                      st\<lparr>files := insert storagePath (files st)\<rparr>)))
                   | _ \<Rightarrow> (fail (Msg ''Project not found or access denied''), st)))))"

section \<open>The transcript prop of the component\<close>










section \<open>Webhook receiver (app/api/deepgram/callback/route.ts)\<close>

record response =
  body :: string
  http_status :: nat

text \<open>The three reads of lines 13--15.\<close>

definition read_requestId :: "jsval \<Rightarrow> exn + jsval" where
  "read_requestId data =
     optional_chain data (\<lambda>d. getProp ''request_id'' (getProp ''metadata'' d))"

definition read_transcript :: "jsval \<Rightarrow> exn + jsval" where
  "read_transcript data =
     optional_chain data (\<lambda>d.
       getProp ''transcript''
         (index0 (getProp ''alternatives'' (index0 (getProp ''channels'' (getProp ''results'' d))))))"

definition read_words :: "jsval \<Rightarrow> exn + jsval" where
  "read_words data =
     optional_chain data (\<lambda>d.
       getProp ''words''
         (index0 (getProp ''alternatives'' (index0 (getProp ''channels'' (getProp ''results'' d))))))"

text \<open>
  \<open>POST\<close> (lines 10--23). The argument \<open>json\<close> is what \<open>await request.json()\<close> gives: the
  parsed body, or the exception for a body that is not JSON. Whatever is thrown inside the
  \<open>try\<close> block leads to the 500 response; the result of \<open>updateTranscript\<close> is awaited and
  dropped.
\<close>

definition POST :: "backend \<Rightarrow> store \<Rightarrow> exn + jsval \<Rightarrow> response \<times> store" where
  "POST be st json =
     (case json of
        Inl e \<Rightarrow> (\<lparr>body = ''error'', http_status = 500\<rparr>, st)
      | Inr data \<Rightarrow>
          (case read_requestId data of
             Inl e \<Rightarrow> (\<lparr>body = ''error'', http_status = 500\<rparr>, st)
           | Inr requestId \<Rightarrow>
               (case read_transcript data of
                  Inl e \<Rightarrow> (\<lparr>body = ''error'', http_status = 500\<rparr>, st)
                | Inr transcriptText \<Rightarrow>
                    (case read_words data of
                       Inl e \<Rightarrow> (\<lparr>body = ''error'', http_status = 500\<rparr>, st)
                     | Inr transcriptData \<Rightarrow>
                         (\<lparr>body = ''ok'', http_status = 200\<rparr>,
                          snd (updateTranscript be st requestId transcriptText
                                 transcriptData))))))"

text \<open>
  The documented shape of the provider's callback body, read off as a typed triple:
  \<^verbatim>\<open>{ metadata: { request_id }, results: { channels: [ { alternatives:
      [ { transcript, words } ] } ] } }\<close>
  with a string \<open>request_id\<close>, a string \<open>transcript\<close> and an array \<open>words\<close>; other
  properties, channels and alternatives may be present. This definition follows the
  specification, not the handler.
\<close>

definition documented_payload :: "jsval \<Rightarrow> (string \<times> string \<times> jsval list) option" where
  "documented_payload data =
     (case data of
        JObj kvs \<Rightarrow>
          (case (map_of kvs ''metadata'', map_of kvs ''results'') of
             (Some (JObj meta), Some (JObj res)) \<Rightarrow>
               (case (map_of meta ''request_id'', map_of res ''channels'') of
                  (Some (JStr rid), Some (JArr (JObj ch # chs))) \<Rightarrow>
                    (case map_of ch ''alternatives'' of
                       Some (JArr (JObj alt # alts)) \<Rightarrow>
                         (case (map_of alt ''transcript'', map_of alt ''words'') of
                            (Some (JStr text), Some (JArr ws)) \<Rightarrow> Some (rid, text, ws)
                          | _ \<Rightarrow> None)
                     | _ \<Rightarrow> None)
                | _ \<Rightarrow> None)
           | _ \<Rightarrow> None)
      | _ \<Rightarrow> None)"

text \<open>
  An exception is raised inside the handler's \<open>try\<close> block: by \<open>request.json()\<close> or by
  one of the three reads. (\<open>updateTranscript\<close> catches whatever is thrown inside it.)
\<close>

definition raised :: "exn + jsval \<Rightarrow> bool" where
  "raised json =
     (case json of
        Inl e \<Rightarrow> True
      | Inr data \<Rightarrow>
          isl (read_requestId data) \<or> isl (read_transcript data) \<or> isl (read_words data))"

section \<open>Notions of the specification\<close>

text \<open>
  A value seen as data, with no evaluation and no exceptions: \<open>undefined\<close> or \<open>null\<close>;
  the value an object holds under a key (\<open>undefined\<close> when it holds none, or when the
  value is no object); the first item of a value.
\<close>

definition nullish :: "jsval \<Rightarrow> bool" where
  "nullish v = (v = JUndefined \<or> v = JNull)"

definition member :: "string \<Rightarrow> jsval \<Rightarrow> jsval" where
  "member k v =
     (case v of
        JObj kvs \<Rightarrow> (case map_of kvs k of None \<Rightarrow> JUndefined | Some x \<Rightarrow> x)
      | _ \<Rightarrow> JUndefined)"

definition first_item :: "jsval \<Rightarrow> jsval" where
  "first_item v =
     (case v of
        JArr xs \<Rightarrow> (case xs of [] \<Rightarrow> JUndefined | x # _ \<Rightarrow> x)
      | JStr t \<Rightarrow> (case t of [] \<Rightarrow> JUndefined | c # _ \<Rightarrow> JStr [c])
      | JObj kvs \<Rightarrow> (case map_of kvs ''0'' of None \<Rightarrow> JUndefined | Some x \<Rightarrow> x)
      | _ \<Rightarrow> JUndefined)"

text \<open>
  A callback body that is missing the expected nested fields: it is not \<open>null\<close>, and one
  of the containers on the documented paths (\<open>metadata\<close>, \<open>results\<close>,
  \<open>results.channels\<close>, its first channel, that channel's \<open>alternatives\<close>, the first
  alternative) is absent or \<open>null\<close>. The three leaves (\<open>request_id\<close>, \<open>transcript\<close>,
  \<open>words\<close>) are not among them.
\<close>

definition missing_nested_fields :: "jsval \<Rightarrow> bool" where
  "missing_nested_fields data =
     (let results = member ''results'' data;
          channels = member ''channels'' results;
          channel = first_item channels;
          alternatives = member ''alternatives'' channel;
          alternative = first_item alternatives
      in (if nullish data then False
          else nullish (member ''metadata'' data) \<or> nullish results \<or> nullish channels \<or>
               nullish channel \<or> nullish alternatives \<or> nullish alternative))"



text \<open>
  An upload that breaks one of the four validation rules: no file, no project id, a file
  of more than 104857600 bytes, a MIME type outside the allowed list (an entry that is a
  string has no MIME type). The messages of the four rules.
\<close>

definition invalid_upload :: "upload_form \<Rightarrow> bool" where
  "invalid_upload fd =
     (falsy (form_file fd) \<or> falsy (form_projectId fd) \<or>
      (case form_file fd of
         Some (FileEntry f) \<Rightarrow> file_size f > 104857600 \<or> file_type f \<notin> set allowedTypes
       | _ \<Rightarrow> True))"

definition validation_messages :: "string list" where
  "validation_messages =
     [''No file provided'', ''Project ID is required'', ''File size must be less than 100MB'',
      ''File type not supported. Please use MP4, MOV, AVI, or WebM'']"

section \<open>Example data\<close>

text \<open>The two words of the specification's scenario A.\<close>

definition w_cuban :: Word where
  "w_cuban = \<lparr>word = ''cuban'', start = 1.3, end' = 1.8, confidence = 0.99,
               punctuated_word = Some ''Cuban''\<rparr>"

definition w_food :: Word where
  "w_food = \<lparr>word = ''food'', start = 1.8, end' = 2.1, confidence = 0.8,
              punctuated_word = None\<rparr>"

text \<open>A callback body as the provider sends it, for a given request id: one word.\<close>

definition cuban_json :: jsval where
  "cuban_json = JObj [(''word'', JStr ''cuban''), (''start'', JNum 1.3), (''end'', JNum 1.8),
                      (''confidence'', JNum 0.99)]"

definition callback_body :: "string \<Rightarrow> jsval" where
  "callback_body rid =
     JObj [(''metadata'', JObj [(''transaction_key'', JStr ''deprecated''),
                                (''request_id'', JStr rid),
                                (''duration'', JNum 2.1)]),
           (''results'', JObj [(''channels'',
              JArr [JObj [(''alternatives'',
                 JArr [JObj [(''transcript'', JStr ''cuban''),
                             (''confidence'', JNum 0.99),
                             (''words'', JArr [cuban_json])]])]])])]"

definition video_a :: video_row where
  "video_a = \<lparr>video_id = ''11111111-1111-4111-8111-111111111111'', project_id = ''p1'', storage_path = ''videos/p1/a.mp4'',
               status = Transcribing, transcript_text = JNull, transcript_data_full = JNull,
               deepgram_request_id = Some ''abc''\<rparr>"

definition video_b :: video_row where
  "video_b = \<lparr>video_id = ''22222222-2222-4222-8222-222222222222'', project_id = ''p1'', storage_path = ''videos/p1/b.mp4'',
               status = Uploaded, transcript_text = JNull, transcript_data_full = JNull,
               deepgram_request_id = None\<rparr>"

definition store_ab :: store where
  "store_ab = \<lparr>videos = [video_a, video_b],
                projects = [\<lparr>proj_id = ''p1'', user_id = ''u1''\<rparr>],
                files = {''videos/p1/a.mp4'', ''videos/p1/b.mp4''},
                revalidated = [], deletions = []\<rparr>"

text \<open>
  The decimal digits of a natural number. In the examples, which never turn a number into
  text, the digits of a number's integer part serve as its text (for a non-negative integer
  below \<open>1e21\<close> they are the run-time's text).
\<close>

fun nat_digits :: "nat \<Rightarrow> string" where
  "nat_digits n =
     (if n < 10 then [''0123456789'' ! n]
      else nat_digits (n div 10) @ [''0123456789'' ! (n mod 10)])"

definition integer_text :: "real \<Rightarrow> string" where
  "integer_text r = nat_digits (nat \<lfloor>r\<rfloor>)"

text \<open>
  Outcomes of the platform: everything works for the signed-in user \<open>u1\<close>; the same with
  no user signed in; the same with one failing operation; the same with no client to be
  had.
\<close>

definition backend_ok :: backend where
  "backend_ok = \<lparr>createClient_throws = None, auth_user = Some ''u1'', update_error = False,
                  delete_error = False, remove_error = False, upload_error = False,
                  number_text = integer_text\<rparr>"

definition backend_no_client :: backend where
  "backend_no_client = backend_ok\<lparr>createClient_throws := Some ''supabaseUrl is required.''\<rparr>"

definition backend_delete_fails :: backend where
  "backend_delete_fails = backend_ok\<lparr>delete_error := True\<rparr>"

definition backend_anonymous :: backend where
  "backend_anonymous = backend_ok\<lparr>auth_user := None\<rparr>"

definition backend_update_fails :: backend where
  "backend_update_fails = backend_ok\<lparr>update_error := True\<rparr>"

definition backend_remove_fails :: backend where
  "backend_remove_fails = backend_ok\<lparr>remove_error := True\<rparr>"

text \<open>
  The UUID test used in the examples, after the schema validator's pattern: eight, four,
  four, four and twelve hexadecimal digits separated by hyphens, the third group starting with a version digit from 1 to 8
  and the fourth with one of \<open>8 9 a b A B\<close>; or the all-zero or the all-\<open>f\<close> identifier.
  In the pattern, \<open>h\<close> is a hexadecimal digit, \<open>v\<close> a version digit and \<open>r\<close> a variant
  digit.
\<close>

definition uuid_char :: "char \<Rightarrow> char \<Rightarrow> bool" where
  "uuid_char p c =
     (if p = CHR ''h'' then c \<in> set ''0123456789abcdefABCDEF''
      else if p = CHR ''v'' then c \<in> set ''12345678''
      else if p = CHR ''r'' then c \<in> set ''89abAB''
      else c = p)"

definition uuid_pattern :: "string \<Rightarrow> bool" where
  "uuid_pattern t =
     (list_all2 uuid_char ''hhhhhhhh-hhhh-vhhh-rhhh-hhhhhhhhhhhh'' t \<or>
      t = ''00000000-0000-0000-0000-000000000000'' \<or>
      t = ''ffffffff-ffff-ffff-ffff-ffffffffffff'')"

text \<open>Upload forms: a good one, and one for each validation rule.\<close>

definition clip_mp4 :: File where
  "clip_mp4 = \<lparr>file_name = ''clip.mp4'', file_size = 2048, file_type = ''video/mp4''\<rparr>"

definition form_good :: upload_form where
  "form_good = \<lparr>form_file = Some (FileEntry clip_mp4),
                 form_projectId = Some (StringEntry ''p1'')\<rparr>"

definition form_no_file :: upload_form where
  "form_no_file = form_good\<lparr>form_file := None\<rparr>"

definition form_no_project :: upload_form where
  "form_no_project = form_good\<lparr>form_projectId := None\<rparr>"

definition form_too_big :: upload_form where
  "form_too_big = form_good\<lparr>form_file := Some (FileEntry (clip_mp4\<lparr>file_size := 104857601\<rparr>))\<rparr>"

definition form_text_file :: upload_form where
  "form_text_file =
     form_good\<lparr>form_file := Some (FileEntry (clip_mp4\<lparr>file_type := ''text/plain''\<rparr>))\<rparr>"

section \<open>The lookup\<close>

lemma findIndex_from_none:
  "(\<forall>x \<in> set xs. \<not> p x) \<Longrightarrow> findIndex_from p xs k = - 1"
  by (induction xs arbitrary: k) auto

lemma findIndex_from_first:
  "i < length xs \<Longrightarrow> p (xs ! i) \<Longrightarrow> (\<forall>j < i. \<not> p (xs ! j)) \<Longrightarrow>
   findIndex_from p xs k = k + int i"
proof (induction xs arbitrary: i k)
  case Nil
  then show ?case by simp
next
  case (Cons x xs)
  show ?case
  proof (cases i)
    case 0
    with Cons.prems show ?thesis by simp
  next
    case (Suc n)
    from Cons.prems Suc have npx: "\<not> p x" by auto
    have n_lt: "n < length xs" using Cons.prems Suc by simp
    have pn: "p (xs ! n)" using Cons.prems Suc by simp
    have before: "\<forall>j < n. \<not> p (xs ! j)"
    proof (intro allI impI)
      fix j assume "j < n"
      then have "Suc j < i" using Suc by simp
      with Cons.prems have "\<not> p ((x # xs) ! Suc j)" by blast
      then show "\<not> p (xs ! j)" by simp
    qed
    from Cons.IH [OF n_lt pn before, of "k + 1"] npx Suc show ?thesis by simp
  qed
qed

lemma first_match_exists:
  "\<exists>x \<in> set xs. p x \<Longrightarrow> \<exists>i < length xs. p (xs ! i) \<and> (\<forall>j < i. \<not> p (xs ! j))"
proof -
  assume ex: "\<exists>x \<in> set xs. p x"
  then obtain m where m: "m < length xs" "p (xs ! m)"
    by (auto simp: in_set_conv_nth)
  define i where "i = (LEAST n. n < length xs \<and> p (xs ! n))"
  have i: "i < length xs \<and> p (xs ! i)"
    unfolding i_def by (rule LeastI [of "\<lambda>n. n < length xs \<and> p (xs ! n)" m]) (use m in simp)
  have "\<forall>j < i. \<not> p (xs ! j)"
  proof (intro allI impI notI)
    fix j assume j: "j < i" "p (xs ! j)"
    then have "j < length xs \<and> p (xs ! j)" using i by simp
    then have "i \<le> j" unfolding i_def by (rule Least_le)
    with j show False by simp
  qed
  with i show ?thesis by blast
qed

text \<open>
  C1. For every list of words and every current time, the computed index is either \<open>-1\<close>
  (and then no word contains the time) or the index \<open>i\<close> of a word with
  \<open>start \<le> currentTime \<le> end\<close>, both bounds inclusive, such that no earlier index
  satisfies the predicate: among several matching words the earliest wins.
\<close>

theorem locateCurrentWord_first_match:
  "(locateCurrentWord words t = - 1 \<and>
      (\<forall>w \<in> set words. \<not> (start w \<le> t \<and> t \<le> end' w))) \<or>
   (\<exists>i < length words. locateCurrentWord words t = int i \<and>
      start (words ! i) \<le> t \<and> t \<le> end' (words ! i) \<and>
      (\<forall>j < i. \<not> (start (words ! j) \<le> t \<and> t \<le> end' (words ! j))))"
proof (cases "\<exists>w \<in> set words. start w \<le> t \<and> t \<le> end' w")
  case False
  then have "locateCurrentWord words t = - 1"
    unfolding locateCurrentWord_def findIndex_def
    by (intro findIndex_from_none) auto
  with False show ?thesis by blast
next
  case True
  from first_match_exists [of words "\<lambda>w. start w \<le> t \<and> t \<le> end' w", OF True]
  obtain i where i: "i < length words" "start (words ! i) \<le> t \<and> t \<le> end' (words ! i)"
    "\<forall>j < i. \<not> (start (words ! j) \<le> t \<and> t \<le> end' (words ! j))"
    by blast
  have "locateCurrentWord words t = int i"
    unfolding locateCurrentWord_def findIndex_def
    using findIndex_from_first [of i words "\<lambda>w. t \<ge> start w \<and> t \<le> end' w" 0] i
    by simp
  with i show ?thesis by blast
qed

text \<open>
  Scenario A, with the shared boundary: at time 1.8 both words contain the time and the
  first one is reported.
\<close>

theorem locateCurrentWord_first_match_witness:
  "locateCurrentWord [w_cuban, w_food] 1.8 = 0 \<and>
   start ([w_cuban, w_food] ! 0) \<le> 1.8 \<and> 1.8 \<le> end' ([w_cuban, w_food] ! 0) \<and>
   start ([w_cuban, w_food] ! 1) \<le> 1.8 \<and> 1.8 \<le> end' ([w_cuban, w_food] ! 1)"
  using locateCurrentWord_first_match [of "[w_cuban, w_food]" "1.8"]
  by (simp add: locateCurrentWord_def findIndex_def w_cuban_def w_food_def)

lemma scenario_A:
  "locateCurrentWord [w_cuban, w_food] 1.5 = 0"
  "locateCurrentWord [w_cuban, w_food] 2.0 = 1"
  "locateCurrentWord [w_cuban, w_food] 5.0 = - 1"
  by (simp_all add: locateCurrentWord_def findIndex_def w_cuban_def w_food_def)

text \<open>
  C4. For every current time the lookup on the empty word list gives the sentinel \<open>-1\<close>,
  and so does the effect, which returns early when there are no words; both are functions
  of their arguments alone.
\<close>

theorem empty_words_sentinel:
  "locateCurrentWord [] t = - 1 \<and> currentWordIndex_effect h [] t = - 1"
  by (simp add: locateCurrentWord_def findIndex_def currentWordIndex_effect_def)

theorem empty_words_sentinel_witness:
  "locateCurrentWord [] 5 = - 1 \<and> currentWordIndex_effect True [] 5 = - 1"
  using empty_words_sentinel [of 5 True] by simp

section \<open>Click to seek\<close>

text \<open>
  C7. Activating a word calls the word-click callback with exactly the word's \<open>start\<close>:
  whatever the callback and the state it acts on, and whatever the other fields of the
  word; the button of index \<open>i\<close> does so for \<open>words[i]\<close>.
\<close>

theorem word_click_passes_start:
  "handleWordClick onWordClick w s = onWordClick (start w) s \<and>
   (start w = start w' \<longrightarrow>
      handleWordClick onWordClick w s = handleWordClick onWordClick w' s) \<and>
   (i < length words \<longrightarrow> click_word onWordClick words i s = onWordClick (start (words ! i)) s)"
  by (simp add: handleWordClick_def click_word_def)

text \<open>A callback that records the seek times it is given: clicking \<open>food\<close> records 1.8.\<close>

theorem word_click_passes_start_witness:
  "handleWordClick (\<lambda>t log. t # log) w_food [0.5] = [1.8, 0.5] \<and>
   start w_food = start (w_food\<lparr>end' := 9, confidence := 0\<rparr>) \<and>
   handleWordClick (\<lambda>t log. t # log) (w_food\<lparr>end' := 9, confidence := 0\<rparr>) [0.5] = [1.8, 0.5] \<and>
   1 < length [w_cuban, w_food] \<and>
   click_word (\<lambda>t log. t # log) [w_cuban, w_food] 1 [0.5] = [1.8, 0.5]"
  using word_click_passes_start
    [of "\<lambda>t log. t # log" w_food "[0.5]" "w_food\<lparr>end' := 9, confidence := 0\<rparr>" 1
        "[w_cuban, w_food]"]
  by (simp add: handleWordClick_def w_food_def w_cuban_def)

section \<open>Confidence bands\<close>

lemma getConfidenceBadge_monotone:
  "c1 \<le> c2 \<Longrightarrow> band_rank (getConfidenceBadge c1) \<le> band_rank (getConfidenceBadge c2)"
  by (simp add: getConfidenceBadge_def band_rank_def)

lemma getConfidenceColor_monotone:
  "c1 \<le> c2 \<Longrightarrow> band_rank (getConfidenceColor c1) \<le> band_rank (getConfidenceColor c2)"
  by (simp add: getConfidenceColor_def band_rank_def)

lemma getConfidenceBadge_three_bands:
  "getConfidenceBadge 0.95 = ''High''"
  "getConfidenceBadge 0.8 = ''Medium''"
  "getConfidenceBadge 0.5 = ''Low''"
  by (simp_all add: getConfidenceBadge_def)

text \<open>
  C6. The claim asks of both classifications two distinct thresholds and three reachable
  bands. The badge text has them (0.9 and 0.7). The colour class tests 0.7 twice, so its
  second branch is dead: no confidence is given the medium colour, and 0.8, which the
  badge calls \<open>Medium\<close>, is coloured as high.
\<close>

theorem getConfidenceColor_never_medium:
  "getConfidenceColor c \<noteq> ''text-yellow-600'' \<and>
   getConfidenceColor 0.8 = ''text-green-600'' \<and>
   getConfidenceBadge 0.8 = ''Medium''"
  by (simp add: getConfidenceColor_def getConfidenceBadge_def)

section \<open>The webhook\<close>

lemma reads_of_documented_payload:
  assumes "documented_payload data = Some (rid, text, ws)"
  shows "read_requestId data = Inr (JStr rid)"
    and "read_transcript data = Inr (JStr text)"
    and "read_words data = Inr (JArr ws)"
  using assms
  by (auto simp: documented_payload_def read_requestId_def read_transcript_def read_words_def
        optional_chain_def
      split: jsval.splits option.splits list.splits)

lemma documented_callback_body:
  "documented_payload (callback_body rid) = Some (rid, ''cuban'', [cuban_json])"
  by (simp add: documented_payload_def callback_body_def)

lemma getProp_member:
  "getProp k (Inr v) = (if nullish v then Inl TypeError else Inr (member k v))"
  by (cases v) (simp_all add: nullish_def member_def)

lemma index0_first_item:
  "index0 (Inr v) = (if nullish v then Inl TypeError else Inr (first_item v))"
  by (cases v) (simp_all add: nullish_def first_item_def)

lemma raised_iff_missing: "raised (Inr data) = missing_nested_fields data"
proof (cases "nullish data")
  case True
  then show ?thesis
    by (auto simp: raised_def missing_nested_fields_def read_requestId_def
        read_transcript_def read_words_def optional_chain_def nullish_def Let_def)
next
  case False
  then have d: "data \<noteq> JUndefined" "data \<noteq> JNull"
    by (simp_all add: nullish_def)
  from False d show ?thesis
    by (simp add: raised_def missing_nested_fields_def read_requestId_def
        read_transcript_def read_words_def optional_chain_def getProp_member
        index0_first_item Let_def)
qed

lemma updateTranscript_client_throws:
  "createClient_throws be = Some m \<Longrightarrow>
   updateTranscript be st rid text ws = (fail (Thrown (LibError m)), st)"
  by (simp add: updateTranscript_def)

lemma POST_reads:
  "read_requestId data = Inr a \<Longrightarrow> read_transcript data = Inr b \<Longrightarrow>
   read_words data = Inr c \<Longrightarrow>
   POST be st (Inr data) =
     (\<lparr>body = ''ok'', http_status = 200\<rparr>, snd (updateTranscript be st a b c))"
  by (simp add: POST_def)

lemma POST_raised:
  "raised json \<Longrightarrow> POST be st json = (\<lparr>body = ''error'', http_status = 500\<rparr>, st)"
  by (auto simp: raised_def POST_def split: sum.splits)

lemma POST_not_raised:
  "\<not> raised json \<Longrightarrow> fst (POST be st json) = \<lparr>body = ''ok'', http_status = 200\<rparr>"
  by (auto simp: raised_def POST_def split: sum.splits)

lemma updateTranscript_ok:
  "createClient_throws be = None \<Longrightarrow> \<not> update_error be \<Longrightarrow>
   updateTranscript be st (JStr rid) (JStr text) (JArr ws) =
     (succeed None,
      st\<lparr>videos := map (\<lambda>r. if deepgram_request_id r = Some rid
                             then r\<lparr>transcript_text := JStr text,
                                    transcript_data_full := JArr ws,
                                    status := Transcribed\<rparr>
                             else r) (videos st)\<rparr>)"
  by (simp add: updateTranscript_def eq_request_id_def transcript_update_def set_column_def)

lemma updateTranscript_no_match:
  assumes "\<forall>r \<in> set (videos st). \<not> eq_request_id (number_text be) rid r"
  shows "snd (updateTranscript be st rid text ws) = st"
proof -
  from assms
  have "map (\<lambda>r. if eq_request_id (number_text be) rid r
                  then transcript_update text ws r else r) (videos st)
        = videos st"
    by (simp add: map_idI)
  then show ?thesis
    by (simp add: updateTranscript_def split: option.splits)
qed

text \<open>
  C2. For a callback body of the documented shape the handler reads the request id, the
  transcript text and the word array; when the store reports no error,
  \<open>updateTranscript\<close> returns success and the store afterwards has, in every video row
  whose \<open>deepgram_request_id\<close> is that request id, the transcript text, the word array
  and the status \<open>transcribed\<close>, every other row being as before. That store is the one
  the handler leaves.
\<close>

theorem webhook_transcript_update:
  assumes "documented_payload data = Some (rid, text, ws)"
    and "createClient_throws be = None" and "\<not> update_error be"
  shows "read_requestId data = Inr (JStr rid) \<and>
         read_transcript data = Inr (JStr text) \<and>
         read_words data = Inr (JArr ws) \<and>
         updateTranscript be st (JStr rid) (JStr text) (JArr ws) =
           (succeed None,
            st\<lparr>videos := map (\<lambda>r. if deepgram_request_id r = Some rid
                                   then r\<lparr>transcript_text := JStr text,
                                          transcript_data_full := JArr ws,
                                          status := Transcribed\<rparr>
                                   else r) (videos st)\<rparr>) \<and>
         success (fst (updateTranscript be st (JStr rid) (JStr text) (JArr ws))) \<and>
         snd (POST be st (Inr data)) =
           snd (updateTranscript be st (JStr rid) (JStr text) (JArr ws))"
proof -
  note r = reads_of_documented_payload [OF assms(1)]
  have u: "updateTranscript be st (JStr rid) (JStr text) (JArr ws) =
           (succeed None,
            st\<lparr>videos := map (\<lambda>r. if deepgram_request_id r = Some rid
                                   then r\<lparr>transcript_text := JStr text,
                                          transcript_data_full := JArr ws,
                                          status := Transcribed\<rparr>
                                   else r) (videos st)\<rparr>)"
    by (rule updateTranscript_ok [OF assms(2,3)])
  have s: "success (fst (updateTranscript be st (JStr rid) (JStr text) (JArr ws)))"
    by (simp add: u succeed_def)
  have p: "snd (POST be st (Inr data)) =
           snd (updateTranscript be st (JStr rid) (JStr text) (JArr ws))"
    by (simp add: POST_reads [OF r])
  from r u s p show ?thesis by blast
qed

text \<open>
  Scenario C: the body with request id \<open>abc\<close> and one word marks the matching video
  \<open>transcribed\<close> and stores exactly that one-word array; the other video is untouched.
\<close>

theorem webhook_transcript_update_witness:
  "documented_payload (callback_body ''abc'') = Some (''abc'', ''cuban'', [cuban_json]) \<and>
   createClient_throws backend_ok = None \<and> \<not> update_error backend_ok \<and>
   success (fst (updateTranscript backend_ok store_ab (JStr ''abc'') (JStr ''cuban'')
                   (JArr [cuban_json]))) \<and>
   snd (POST backend_ok store_ab (Inr (callback_body ''abc''))) =
     store_ab\<lparr>videos := [video_a\<lparr>transcript_text := JStr ''cuban'',
                                   transcript_data_full := JArr [cuban_json],
                                   status := Transcribed\<rparr>, video_b]\<rparr>"
proof -
  have h1: "documented_payload (callback_body ''abc'') = Some (''abc'', ''cuban'', [cuban_json])"
    by (rule documented_callback_body)
  have h2: "createClient_throws backend_ok = None" by (simp add: backend_ok_def)
  have h3: "\<not> update_error backend_ok" by (simp add: backend_ok_def)
  note t = webhook_transcript_update [OF h1 h2 h3, of store_ab]
  have u: "snd (updateTranscript backend_ok store_ab (JStr ''abc'') (JStr ''cuban'')
                  (JArr [cuban_json])) =
           store_ab\<lparr>videos := [video_a\<lparr>transcript_text := JStr ''cuban'',
                                         transcript_data_full := JArr [cuban_json],
                                         status := Transcribed\<rparr>, video_b]\<rparr>"
    using t by (simp add: store_ab_def video_a_def video_b_def)
  from t have s: "success (fst (updateTranscript backend_ok store_ab (JStr ''abc'')
                                  (JStr ''cuban'') (JArr [cuban_json])))"
    by blast
  from t have p: "snd (POST backend_ok store_ab (Inr (callback_body ''abc''))) =
                  snd (updateTranscript backend_ok store_ab (JStr ''abc'') (JStr ''cuban'')
                         (JArr [cuban_json]))"
    by blast
  from h1 h2 h3 s show ?thesis unfolding p u by blast
qed

text \<open>
  C5, as amended. The endpoint answers 500 with the body \<open>error\<close>, the store untouched,
  when \<open>request.json()\<close> throws and when the body is missing the expected nested fields
  (then one of the three reads throws). In every other case it answers 200 with the body
  \<open>ok\<close>, whatever happens in \<open>updateTranscript\<close>: when \<open>createClient\<close> throws there, the
  exception is caught there, nothing is updated, and the answer is still 200. A body of
  the documented shape whose request id no video row carries leaves every row as it was
  and is answered 200.
\<close>

theorem webhook_response_codes:
  "POST be st (Inl e) = (\<lparr>body = ''error'', http_status = 500\<rparr>, st) \<and>
   (missing_nested_fields data \<longrightarrow>
      POST be st (Inr data) = (\<lparr>body = ''error'', http_status = 500\<rparr>, st)) \<and>
   (\<not> missing_nested_fields data \<longrightarrow>
      fst (POST be st (Inr data)) = \<lparr>body = ''ok'', http_status = 200\<rparr>) \<and>
   (\<not> missing_nested_fields data \<and> createClient_throws be = Some m \<longrightarrow>
      POST be st (Inr data) = (\<lparr>body = ''ok'', http_status = 200\<rparr>, st)) \<and>
   (documented_payload data = Some (rid, tx, ws) \<and>
    (\<forall>r \<in> set (videos st). deepgram_request_id r \<noteq> Some rid) \<longrightarrow>
      POST be st (Inr data) = (\<lparr>body = ''ok'', http_status = 200\<rparr>, st))"
proof (intro conjI impI)
  show "POST be st (Inl e) = (\<lparr>body = ''error'', http_status = 500\<rparr>, st)"
    by (simp add: POST_def)
next
  assume "missing_nested_fields data"
  then have "raised (Inr data)" by (simp add: raised_iff_missing)
  then show "POST be st (Inr data) = (\<lparr>body = ''error'', http_status = 500\<rparr>, st)"
    by (rule POST_raised)
next
  assume "\<not> missing_nested_fields data"
  then have "\<not> raised (Inr data)" by (simp add: raised_iff_missing)
  then show "fst (POST be st (Inr data)) = \<lparr>body = ''ok'', http_status = 200\<rparr>"
    by (rule POST_not_raised)
next
  assume a: "\<not> missing_nested_fields data \<and> createClient_throws be = Some m"
  then have nr: "\<not> raised (Inr data)" by (simp add: raised_iff_missing)
  then obtain a1 a2 a3 where r: "read_requestId data = Inr a1" "read_transcript data = Inr a2"
    "read_words data = Inr a3"
    by (auto simp: raised_def) (metis sum.collapse(2))
  from a show "POST be st (Inr data) = (\<lparr>body = ''ok'', http_status = 200\<rparr>, st)"
    by (simp add: POST_reads [OF r] updateTranscript_client_throws)
next
  assume a: "documented_payload data = Some (rid, tx, ws) \<and>
             (\<forall>r \<in> set (videos st). deepgram_request_id r \<noteq> Some rid)"
  then have nm: "\<forall>r \<in> set (videos st). \<not> eq_request_id (number_text be) (JStr rid) r"
    by (simp add: eq_request_id_def)
  note r = reads_of_documented_payload [OF conjunct1 [OF a]]
  have "POST be st (Inr data) =
      (\<lparr>body = ''ok'', http_status = 200\<rparr>,
       snd (updateTranscript be st (JStr rid) (JStr tx) (JArr ws)))"
    by (simp add: POST_reads r)
  with updateTranscript_no_match [OF nm] show
    "POST be st (Inr data) = (\<lparr>body = ''ok'', http_status = 200\<rparr>, st)"
    by simp
qed

text \<open>
  A body that is not JSON and a body without the nested fields are answered 500; the
  literal \<open>null\<close> is missing nothing and is answered 200; a well-formed body is answered
  200 when no client can be had; so is a well-formed body with the request id \<open>zzz\<close>,
  which no row carries, and the store is unchanged.
\<close>

theorem webhook_response_codes_witness:
  "POST backend_ok store_ab (Inl SyntaxError) =
     (\<lparr>body = ''error'', http_status = 500\<rparr>, store_ab) \<and>
   missing_nested_fields (JObj []) \<and>
   POST backend_ok store_ab (Inr (JObj [])) =
     (\<lparr>body = ''error'', http_status = 500\<rparr>, store_ab) \<and>
   \<not> missing_nested_fields JNull \<and>
   fst (POST backend_ok store_ab (Inr JNull)) = \<lparr>body = ''ok'', http_status = 200\<rparr> \<and>
   \<not> missing_nested_fields (callback_body ''abc'') \<and>
   createClient_throws backend_no_client = Some ''supabaseUrl is required.'' \<and>
   POST backend_no_client store_ab (Inr (callback_body ''abc'')) =
     (\<lparr>body = ''ok'', http_status = 200\<rparr>, store_ab) \<and>
   documented_payload (callback_body ''zzz'') = Some (''zzz'', ''cuban'', [cuban_json]) \<and>
   list_all (\<lambda>r. deepgram_request_id r \<noteq> Some ''zzz'') (videos store_ab) \<and>
   POST backend_ok store_ab (Inr (callback_body ''zzz'')) =
     (\<lparr>body = ''ok'', http_status = 200\<rparr>, store_ab)"
proof -
  have m1: "missing_nested_fields (JObj [])"
    by (simp add: missing_nested_fields_def nullish_def member_def)
  have m2: "\<not> missing_nested_fields JNull"
    by (simp add: missing_nested_fields_def nullish_def)
  have m3: "\<not> missing_nested_fields (callback_body ''abc'')"
    by (simp add: missing_nested_fields_def nullish_def member_def first_item_def
        callback_body_def)
  have c: "createClient_throws backend_no_client = Some ''supabaseUrl is required.''"
    by (simp add: backend_no_client_def)
  have d: "documented_payload (callback_body ''zzz'') = Some (''zzz'', ''cuban'', [cuban_json])"
    by (rule documented_callback_body)
  have n: "\<forall>r \<in> set (videos store_ab). deepgram_request_id r \<noteq> Some ''zzz''"
    by (simp add: store_ab_def video_a_def video_b_def)
  have n': "list_all (\<lambda>r. deepgram_request_id r \<noteq> Some ''zzz'') (videos store_ab)"
    using n by (simp add: list_all_iff)
  note t1 = webhook_response_codes
              [where e = SyntaxError and be = backend_ok and st = store_ab
                 and data = "JObj []"]
  note t2 = webhook_response_codes
              [where be = backend_ok and st = store_ab and data = JNull]
  note t3 = webhook_response_codes
              [where be = backend_no_client and st = store_ab
                 and data = "callback_body ''abc''" and m = "''supabaseUrl is required.''"]
  note t4 = webhook_response_codes
              [where be = backend_ok and st = store_ab and data = "callback_body ''zzz''"
                 and rid = "''zzz''" and tx = "''cuban''" and ws = "[cuban_json]"]
  from t1 have r0: "POST backend_ok store_ab (Inl SyntaxError) =
                      (\<lparr>body = ''error'', http_status = 500\<rparr>, store_ab)"
    by blast
  from t1 m1 have r1: "POST backend_ok store_ab (Inr (JObj [])) =
                         (\<lparr>body = ''error'', http_status = 500\<rparr>, store_ab)"
    by blast
  from t2 m2 have r2: "fst (POST backend_ok store_ab (Inr JNull)) =
                         \<lparr>body = ''ok'', http_status = 200\<rparr>"
    by blast
  from t3 m3 c have r3: "POST backend_no_client store_ab (Inr (callback_body ''abc'')) =
                           (\<lparr>body = ''ok'', http_status = 200\<rparr>, store_ab)"
    by blast
  from t4 d n have r4: "POST backend_ok store_ab (Inr (callback_body ''zzz'')) =
                          (\<lparr>body = ''ok'', http_status = 200\<rparr>, store_ab)"
    by blast
  from r0 m1 r1 m2 r2 m3 c r3 d n' r4 show ?thesis by blast
qed

text \<open>
  C5 as stated fails: with a well-formed body, \<open>createClient\<close> throwing inside
  \<open>updateTranscript\<close> is an exception raised while the request is processed, and the
  answer is 200 with the body \<open>ok\<close>, not 500.
\<close>

theorem webhook_swallowed_exception_counterexample:
  "createClient_throws backend_no_client = Some ''supabaseUrl is required.'' \<and>
   updateTranscript backend_no_client store_ab (JStr ''abc'') (JStr ''cuban'')
       (JArr [cuban_json]) =
     (fail (Thrown (LibError ''supabaseUrl is required.'')), store_ab) \<and>
   POST backend_no_client store_ab (Inr (callback_body ''abc'')) =
     (\<lparr>body = ''ok'', http_status = 200\<rparr>, store_ab) \<and>
   http_status (fst (POST backend_no_client store_ab (Inr (callback_body ''abc'')))) \<noteq> 500"
proof -
  have c: "createClient_throws backend_no_client = Some ''supabaseUrl is required.''"
    by (simp add: backend_no_client_def)
  note r = reads_of_documented_payload [OF documented_callback_body [of "''abc''"]]
  have u: "updateTranscript backend_no_client store_ab (JStr ''abc'') (JStr ''cuban'')
             (JArr [cuban_json]) =
           (fail (Thrown (LibError ''supabaseUrl is required.'')), store_ab)"
    by (rule updateTranscript_client_throws [OF c])
  have p: "POST backend_no_client store_ab (Inr (callback_body ''abc'')) =
           (\<lparr>body = ''ok'', http_status = 200\<rparr>, store_ab)"
    by (simp add: POST_reads [OF r] u)
  from c u p show ?thesis by simp
qed

text \<open>
  C9. When the table update reports an error, \<open>updateTranscript\<close> returns
  \<open>{ success: false, error: "Failed to update transcript" }\<close> instead of throwing and
  leaves the store as it was; the handler drops that result and answers 200 with the body
  \<open>ok\<close>, the very response it gives when the update succeeds.
\<close>

theorem webhook_hides_store_failure:
  assumes "read_requestId data = Inr rid" and "read_transcript data = Inr text"
    and "read_words data = Inr ws"
    and "createClient_throws be = None" and "update_error be"
  shows "updateTranscript be st rid text ws = (fail (Msg ''Failed to update transcript''), st) \<and>
         \<not> success (fst (updateTranscript be st rid text ws)) \<and>
         POST be st (Inr data) = (\<lparr>body = ''ok'', http_status = 200\<rparr>, st) \<and>
         fst (POST be st (Inr data)) = fst (POST (be\<lparr>update_error := False\<rparr>) st (Inr data))"
proof -
  have u: "updateTranscript be st rid text ws = (fail (Msg ''Failed to update transcript''), st)"
    using assms(4,5) by (simp add: updateTranscript_def)
  have s: "\<not> success (fst (updateTranscript be st rid text ws))"
    by (simp add: u fail_def)
  have p: "POST be st (Inr data) = (\<lparr>body = ''ok'', http_status = 200\<rparr>, st)"
    by (simp add: POST_reads [OF assms(1,2,3)] u)
  have q: "fst (POST be st (Inr data)) = fst (POST (be\<lparr>update_error := False\<rparr>) st (Inr data))"
    by (simp add: POST_reads [OF assms(1,2,3)])
  from u s p q show ?thesis by blast
qed

theorem webhook_hides_store_failure_witness:
  "read_requestId (callback_body ''abc'') = Inr (JStr ''abc'') \<and>
   read_transcript (callback_body ''abc'') = Inr (JStr ''cuban'') \<and>
   read_words (callback_body ''abc'') = Inr (JArr [cuban_json]) \<and>
   createClient_throws backend_update_fails = None \<and> update_error backend_update_fails \<and>
   updateTranscript backend_update_fails store_ab (JStr ''abc'') (JStr ''cuban'')
       (JArr [cuban_json]) = (fail (Msg ''Failed to update transcript''), store_ab) \<and>
   POST backend_update_fails store_ab (Inr (callback_body ''abc'')) =
     (\<lparr>body = ''ok'', http_status = 200\<rparr>, store_ab) \<and>
   fst (POST backend_update_fails store_ab (Inr (callback_body ''abc''))) =
     fst (POST backend_ok store_ab (Inr (callback_body ''abc'')))"
proof -
  note r = reads_of_documented_payload [OF documented_callback_body [of "''abc''"]]
  have c: "createClient_throws backend_update_fails = None"
    by (simp add: backend_update_fails_def backend_ok_def)
  have e: "update_error backend_update_fails"
    by (simp add: backend_update_fails_def)
  have b: "backend_update_fails\<lparr>update_error := False\<rparr> = backend_ok"
    by (simp add: backend_update_fails_def backend_ok_def)
  note t = webhook_hides_store_failure [OF r c e, of store_ab, unfolded b]
  from r c e t show ?thesis by blast
qed

section \<open>Malformed transcript data\<close>








section \<open>Deleting a video\<close>

lemma deleteVideoFile_no_request:
  "createClient_throws be \<noteq> None \<or> auth_user be = None \<Longrightarrow>
   snd (deleteVideoFile be st p) = st"
  by (auto simp: deleteVideoFile_def split: option.splits)

lemma deleteVideoFile_remove_error:
  "createClient_throws be = None \<Longrightarrow> auth_user be = Some u \<Longrightarrow> remove_error be \<Longrightarrow>
   deleteVideoFile be st p = (succeed None, st\<lparr>deletions := FileRemove p # deletions st\<rparr>)"
  by (simp add: deleteVideoFile_def)

lemma deleteVideoFile_removes:
  "createClient_throws be = None \<Longrightarrow> auth_user be = Some u \<Longrightarrow> \<not> remove_error be \<Longrightarrow>
   deleteVideoFile be st p =
     (succeed None, st\<lparr>deletions := FileRemove p # deletions st, files := files st - {p}\<rparr>)"
  by (simp add: deleteVideoFile_def Let_def)

lemma deleteVideo_record_error:
  assumes "is_uuid id'" and "createClient_throws be = None" and "auth_user be = Some u"
    and "single (filter (\<lambda>r. video_id r = id' \<and> owned_by st u r) (videos st)) = Some v"
    and "delete_error be"
  shows "deleteVideo is_uuid be be_file st id' =
           (fail (Msg ''Failed to delete video''),
            st\<lparr>deletions := RecordDelete id' # deletions st\<rparr>)"
  using assms by (simp add: deleteVideo_def)

lemma deleteVideo_record_deleted:
  assumes "is_uuid id'" and "createClient_throws be = None" and "auth_user be = Some u"
    and "single (filter (\<lambda>r. video_id r = id' \<and> owned_by st u r) (videos st)) = Some v"
    and "\<not> delete_error be"
  shows "deleteVideo is_uuid be be_file st id' =
           (succeed None,
            (if storage_path v \<noteq> []
             then snd (deleteVideoFile be_file
                         (st\<lparr>deletions := RecordDelete id' # deletions st,
                              videos := filter (\<lambda>r. video_id r \<noteq> id') (videos st)\<rparr>)
                         (storage_path v))
             else st\<lparr>deletions := RecordDelete id' # deletions st,
                     videos := filter (\<lambda>r. video_id r \<noteq> id') (videos st)\<rparr>)
            \<lparr>revalidated :=
               ''/videos'' # (''/projects/'' @ project_id v) #
               revalidated
                 (if storage_path v \<noteq> []
                  then snd (deleteVideoFile be_file
                              (st\<lparr>deletions := RecordDelete id' # deletions st,
                                   videos := filter (\<lambda>r. video_id r \<noteq> id') (videos st)\<rparr>)
                              (storage_path v))
                  else st\<lparr>deletions := RecordDelete id' # deletions st,
                          videos := filter (\<lambda>r. video_id r \<noteq> id') (videos st)\<rparr>)\<rparr>)"
  using assms by (simp add: deleteVideo_def Let_def)

text \<open>
  C8. For a video the signed-in user owns: \<open>deleteVideo\<close> asks for the record deletion
  first. When that reports an error the action fails and nothing else has been asked for:
  no file removal, the store as before. When it reports none, \<open>deleteVideo\<close> returns
  success and the record is gone from the table, whatever happens in the file cleanup that
  follows; the cleanup asks for the removal of the video's file at most once, after the
  record deletion, and for nothing else. When the cleanup fails (its client cannot be
  created, it finds no user, or the storage \<open>remove\<close> reports an error) the record stays
  deleted and the files are exactly those from before: nothing is rolled back and nothing
  is tried again. An error of the storage \<open>remove\<close> alone still makes \<open>deleteVideoFile\<close>
  return success; a cleanup that works removes the video's file.
\<close>

theorem deleteVideo_tolerates_file_failure:
  assumes "is_uuid id'" and "createClient_throws be = None" and "auth_user be = Some u"
    and "single (filter (\<lambda>r. video_id r = id' \<and> owned_by st u r) (videos st)) = Some v"
  shows "(delete_error be \<longrightarrow>
            deleteVideo is_uuid be be_file st id' =
              (fail (Msg ''Failed to delete video''),
               st\<lparr>deletions := RecordDelete id' # deletions st\<rparr>)) \<and>
         (\<not> delete_error be \<longrightarrow>
            success (fst (deleteVideo is_uuid be be_file st id')) \<and>
            videos (snd (deleteVideo is_uuid be be_file st id')) =
              filter (\<lambda>r. video_id r \<noteq> id') (videos st) \<and>
            deletions (snd (deleteVideo is_uuid be be_file st id')) =
              (if storage_path v \<noteq> [] \<and> createClient_throws be_file = None \<and>
                  auth_user be_file \<noteq> None
               then [FileRemove (storage_path v)] else []) @
              RecordDelete id' # deletions st \<and>
            (createClient_throws be_file \<noteq> None \<or> auth_user be_file = None \<or>
             remove_error be_file \<longrightarrow>
               files (snd (deleteVideo is_uuid be be_file st id')) = files st) \<and>
            (createClient_throws be_file = None \<and> auth_user be_file \<noteq> None \<and>
             \<not> remove_error be_file \<and> storage_path v \<noteq> [] \<longrightarrow>
               files (snd (deleteVideo is_uuid be be_file st id')) =
                 files st - {storage_path v})) \<and>
         (createClient_throws be_file = None \<and> auth_user be_file \<noteq> None \<and>
          remove_error be_file \<longrightarrow>
            fst (deleteVideoFile be_file st (storage_path v)) = succeed None)"
proof (intro conjI impI)
  assume "delete_error be"
  from deleteVideo_record_error [where is_uuid = is_uuid and id' = id', OF assms this]
  show "deleteVideo is_uuid be be_file st id' =
          (fail (Msg ''Failed to delete video''),
           st\<lparr>deletions := RecordDelete id' # deletions st\<rparr>)" .
next
  assume "createClient_throws be_file = None \<and> auth_user be_file \<noteq> None \<and>
          remove_error be_file"
  then show "fst (deleteVideoFile be_file st (storage_path v)) = succeed None"
    by (auto simp: deleteVideoFile_remove_error)
next
  assume nd: "\<not> delete_error be"
  note d = deleteVideo_record_deleted
             [where is_uuid = is_uuid and id' = id' and be_file = be_file, OF assms nd]
  show "success (fst (deleteVideo is_uuid be be_file st id'))"
    by (simp add: d succeed_def)
  show "videos (snd (deleteVideo is_uuid be be_file st id')) =
          filter (\<lambda>r. video_id r \<noteq> id') (videos st)"
    by (simp add: d deleteVideoFile_def Let_def split: option.splits)
  show "deletions (snd (deleteVideo is_uuid be be_file st id')) =
          (if storage_path v \<noteq> [] \<and> createClient_throws be_file = None \<and>
              auth_user be_file \<noteq> None
           then [FileRemove (storage_path v)] else []) @
          RecordDelete id' # deletions st"
    by (auto simp: d deleteVideoFile_def Let_def split: option.splits)
  {
    assume "createClient_throws be_file \<noteq> None \<or> auth_user be_file = None \<or>
            remove_error be_file"
    then show "files (snd (deleteVideo is_uuid be be_file st id')) = files st"
      by (auto simp: d deleteVideoFile_def Let_def split: option.splits)
  }
  {
    assume "createClient_throws be_file = None \<and> auth_user be_file \<noteq> None \<and>
            \<not> remove_error be_file \<and> storage_path v \<noteq> []"
    then show "files (snd (deleteVideo is_uuid be be_file st id')) =
                 files st - {storage_path v}"
      by (auto simp: d deleteVideoFile_def Let_def split: option.splits)
  }
qed

text \<open>
  The first video of the example store, deleted by its owner. When the record deletion
  fails: failure, and only that deletion was asked for. When the storage \<open>remove\<close> fails:
  success, the record is gone, both files are still there, and the removal was asked for
  once, after the record deletion. When the cleanup works, the video's file is gone as
  well.
\<close>

theorem deleteVideo_tolerates_file_failure_witness:
  "uuid_pattern (video_id video_a) \<and> createClient_throws backend_ok = None \<and>
   auth_user backend_ok = Some ''u1'' \<and>
   single (filter (\<lambda>r. video_id r = video_id video_a \<and> owned_by store_ab ''u1'' r)
             (videos store_ab)) = Some video_a \<and>
   delete_error backend_delete_fails \<and>
   deleteVideo uuid_pattern backend_delete_fails backend_ok store_ab (video_id video_a) =
     (fail (Msg ''Failed to delete video''),
      store_ab\<lparr>deletions := [RecordDelete (video_id video_a)]\<rparr>) \<and>
   \<not> delete_error backend_ok \<and> remove_error backend_remove_fails \<and>
   success (fst (deleteVideo uuid_pattern backend_ok backend_remove_fails store_ab
                   (video_id video_a))) \<and>
   videos (snd (deleteVideo uuid_pattern backend_ok backend_remove_fails store_ab
                  (video_id video_a))) = [video_b] \<and>
   files (snd (deleteVideo uuid_pattern backend_ok backend_remove_fails store_ab
                 (video_id video_a))) = files store_ab \<and>
   deletions (snd (deleteVideo uuid_pattern backend_ok backend_remove_fails store_ab
                     (video_id video_a))) =
     [FileRemove ''videos/p1/a.mp4'', RecordDelete (video_id video_a)] \<and>
   fst (deleteVideoFile backend_remove_fails store_ab (storage_path video_a)) =
     succeed None \<and>
   files (snd (deleteVideo uuid_pattern backend_ok backend_ok store_ab
                 (video_id video_a))) = {''videos/p1/b.mp4''}"
proof -
  have h1: "uuid_pattern (video_id video_a)"
    by (simp add: uuid_pattern_def uuid_char_def video_a_def)
  have h2: "createClient_throws backend_ok = None" by (simp add: backend_ok_def)
  have h3: "auth_user backend_ok = Some ''u1''" by (simp add: backend_ok_def)
  have h4: "single (filter (\<lambda>r. video_id r = video_id video_a \<and> owned_by store_ab ''u1'' r)
                      (videos store_ab)) = Some video_a"
    by (simp add: store_ab_def video_a_def video_b_def owned_by_def)
  have h5: "\<not> delete_error backend_ok" by (simp add: backend_ok_def)
  have h6: "remove_error backend_remove_fails" by (simp add: backend_remove_fails_def)
  have h7: "createClient_throws backend_remove_fails = None"
    "auth_user backend_remove_fails \<noteq> None"
    by (simp_all add: backend_remove_fails_def backend_ok_def)
  have h8: "storage_path video_a \<noteq> []" by (simp add: video_a_def)
  have h9: "\<not> remove_error backend_ok" by (simp add: backend_ok_def)
  have h10: "auth_user backend_ok \<noteq> None" by (simp add: backend_ok_def)
  have d1: "delete_error backend_delete_fails" by (simp add: backend_delete_fails_def)
  have d2: "createClient_throws backend_delete_fails = None"
    by (simp add: backend_delete_fails_def backend_ok_def)
  have d3: "auth_user backend_delete_fails = Some ''u1''"
    by (simp add: backend_delete_fails_def backend_ok_def)
  have g: "filter (\<lambda>r. video_id r \<noteq> video_id video_a) (videos store_ab) = [video_b]"
    by (simp add: store_ab_def video_a_def video_b_def)
  have fs: "files store_ab - {storage_path video_a} = {''videos/p1/b.mp4''}"
    by (simp add: store_ab_def video_a_def)
  have sp: "storage_path video_a = ''videos/p1/a.mp4''" by (simp add: video_a_def)
  have dl: "deletions store_ab = []" by (simp add: store_ab_def)
  note t0 = deleteVideo_tolerates_file_failure
             [where is_uuid = uuid_pattern and id' = "video_id video_a"
                and be = backend_delete_fails and be_file = backend_ok,
              OF h1 d2 d3 h4, unfolded dl]
  note t = deleteVideo_tolerates_file_failure
             [where is_uuid = uuid_pattern and id' = "video_id video_a"
                and be_file = backend_remove_fails,
              OF h1 h2 h3 h4, unfolded g dl]
  note t' = deleteVideo_tolerates_file_failure
             [where is_uuid = uuid_pattern and id' = "video_id video_a"
                and be_file = backend_ok,
              OF h1 h2 h3 h4, unfolded g fs]
  from t0 d1 have r0:
    "deleteVideo uuid_pattern backend_delete_fails backend_ok store_ab (video_id video_a) =
       (fail (Msg ''Failed to delete video''),
        store_ab\<lparr>deletions := [RecordDelete (video_id video_a)]\<rparr>)"
    by blast
  from t h5 h6 h7 have r1:
    "success (fst (deleteVideo uuid_pattern backend_ok backend_remove_fails store_ab
                     (video_id video_a)))"
    "videos (snd (deleteVideo uuid_pattern backend_ok backend_remove_fails store_ab
                    (video_id video_a))) = [video_b]"
    "files (snd (deleteVideo uuid_pattern backend_ok backend_remove_fails store_ab
                   (video_id video_a))) = files store_ab"
    "fst (deleteVideoFile backend_remove_fails store_ab (storage_path video_a)) =
       succeed None"
    by blast+
  from t h5 h7 h8 have r2:
    "deletions (snd (deleteVideo uuid_pattern backend_ok backend_remove_fails store_ab
                       (video_id video_a))) =
       [FileRemove ''videos/p1/a.mp4'', RecordDelete (video_id video_a)]"
    by (simp add: sp)
  from t' h2 h5 h8 h9 h10 have r3:
    "files (snd (deleteVideo uuid_pattern backend_ok backend_ok store_ab
                   (video_id video_a))) = {''videos/p1/b.mp4''}"
    by blast
  from h1 h2 h3 h4 h5 h6 d1 r0 r1 r2 r3 show ?thesis by blast
qed

section \<open>Upload validation\<close>

lemma maxSize_bytes: "maxSize = 104857600"
  by (simp add: maxSize_def)

lemma upload_no_file:
  "falsy (form_file fd) \<Longrightarrow>
   uploadVideoFile unique url be st fd = (fail (Msg ''No file provided''), st)"
  by (simp add: uploadVideoFile_def)

lemma upload_no_project:
  "\<not> falsy (form_file fd) \<Longrightarrow> falsy (form_projectId fd) \<Longrightarrow>
   uploadVideoFile unique url be st fd = (fail (Msg ''Project ID is required''), st)"
  by (simp add: uploadVideoFile_def)

lemma upload_too_big:
  "form_file fd = Some (FileEntry f) \<Longrightarrow> \<not> falsy (form_projectId fd) \<Longrightarrow>
   file_size f > 104857600 \<Longrightarrow>
   uploadVideoFile unique url be st fd =
     (fail (Msg ''File size must be less than 100MB''), st)"
  by (simp add: uploadVideoFile_def falsy_def size_over_def maxSize_def)

lemma upload_bad_type:
  "form_file fd = Some (FileEntry f) \<Longrightarrow> \<not> falsy (form_projectId fd) \<Longrightarrow>
   file_size f \<le> 104857600 \<Longrightarrow> file_type f \<notin> set allowedTypes \<Longrightarrow>
   uploadVideoFile unique url be st fd =
     (fail (Msg ''File type not supported. Please use MP4, MOV, AVI, or WebM''), st)"
  by (simp add: uploadVideoFile_def falsy_def size_over_def maxSize_def type_allowed_def)

lemma upload_string_file:
  "form_file fd = Some (StringEntry s) \<Longrightarrow> s \<noteq> [] \<Longrightarrow> \<not> falsy (form_projectId fd) \<Longrightarrow>
   uploadVideoFile unique url be st fd =
     (fail (Msg ''File type not supported. Please use MP4, MOV, AVI, or WebM''), st)"
  by (simp add: uploadVideoFile_def falsy_def size_over_def maxSize_def type_allowed_def)

lemma upload_invalid:
  assumes "invalid_upload fd"
  shows "\<exists>m \<in> set validation_messages.
           uploadVideoFile unique url be st fd = (fail (Msg m), st)"
proof (cases "falsy (form_file fd)")
  case True
  then show ?thesis by (simp add: upload_no_file validation_messages_def)
next
  case nf: False
  show ?thesis
  proof (cases "falsy (form_projectId fd)")
    case True
    with nf show ?thesis by (simp add: upload_no_project validation_messages_def)
  next
    case np: False
    from nf obtain e where e: "form_file fd = Some e"
      by (cases "form_file fd") (auto simp: falsy_def)
    show ?thesis
    proof (cases e)
      case (FileEntry f)
      with e have ff: "form_file fd = Some (FileEntry f)" by simp
      show ?thesis
      proof (cases "file_size f > 104857600")
        case True
        from upload_too_big [OF ff np True] show ?thesis
          by (simp add: validation_messages_def)
      next
        case False
        then have le: "file_size f \<le> 104857600" by simp
        from assms nf np ff False have "file_type f \<notin> set allowedTypes"
          by (simp add: invalid_upload_def)
        from upload_bad_type [OF ff np le this] show ?thesis
          by (simp add: validation_messages_def)
      qed
    next
      case (StringEntry s)
      with e nf have "form_file fd = Some (StringEntry s)" "s \<noteq> []"
        by (simp_all add: falsy_def)
      from upload_string_file [OF this np] show ?thesis
        by (simp add: validation_messages_def)
    qed
  qed
qed

lemma upload_good_example:
  "uploadVideoFile ''1700000000000_k3x'' url backend_anonymous store_ab form_good =
     (fail (Msg ''Authentication required''), store_ab)"
  "uploadVideoFile ''1700000000000_k3x'' url backend_ok store_ab form_good =
     (succeed (Some (''videos/p1/1700000000000_k3x.mp4'',
                     url ''videos/p1/1700000000000_k3x.mp4'')),
      store_ab\<lparr>files := insert ''videos/p1/1700000000000_k3x.mp4'' (files store_ab)\<rparr>)"
  by (simp_all add: uploadVideoFile_def falsy_def size_over_def type_allowed_def maxSize_def
      allowedTypes_def form_good_def clip_mp4_def backend_anonymous_def backend_ok_def
      store_ab_def fileExt_def Let_def)

text \<open>
  C10. \<open>uploadVideoFile\<close> validates its input before it creates the client or asks who
  the caller is. Whatever the platform would answer (signed in or not), and with the
  store left as it was: a missing file gives \<open>No file provided\<close>; else a missing project
  id gives \<open>Project ID is required\<close>; else a file of more than 104857600 bytes gives
  \<open>File size must be less than 100MB\<close>; else a MIME type outside the allowed list gives
  the file-type message. So every invalid upload gets one of these four messages, never
  \<open>Authentication required\<close>.
\<close>

theorem upload_validation_precedes_auth:
  "(falsy (form_file fd) \<longrightarrow>
      uploadVideoFile unique url be st fd = (fail (Msg ''No file provided''), st)) \<and>
   (\<not> falsy (form_file fd) \<and> falsy (form_projectId fd) \<longrightarrow>
      uploadVideoFile unique url be st fd = (fail (Msg ''Project ID is required''), st)) \<and>
   (form_file fd = Some (FileEntry f) \<and> \<not> falsy (form_projectId fd) \<and>
    file_size f > 104857600 \<longrightarrow>
      uploadVideoFile unique url be st fd =
        (fail (Msg ''File size must be less than 100MB''), st)) \<and>
   (form_file fd = Some (FileEntry f) \<and> \<not> falsy (form_projectId fd) \<and>
    file_size f \<le> 104857600 \<and> file_type f \<notin> set allowedTypes \<longrightarrow>
      uploadVideoFile unique url be st fd =
        (fail (Msg ''File type not supported. Please use MP4, MOV, AVI, or WebM''), st)) \<and>
   (invalid_upload fd \<longrightarrow>
      (\<exists>m \<in> set validation_messages.
         uploadVideoFile unique url be st fd = (fail (Msg m), st)) \<and>
      error (fst (uploadVideoFile unique url be st fd)) \<noteq>
        Some (Msg ''Authentication required'') \<and>
      snd (uploadVideoFile unique url be st fd) = st)"
proof -
  have "invalid_upload fd \<longrightarrow>
      (\<exists>m \<in> set validation_messages.
         uploadVideoFile unique url be st fd = (fail (Msg m), st)) \<and>
      error (fst (uploadVideoFile unique url be st fd)) \<noteq>
        Some (Msg ''Authentication required'') \<and>
      snd (uploadVideoFile unique url be st fd) = st"
  proof
    assume "invalid_upload fd"
    from upload_invalid [OF this, of unique url be st]
    obtain m where m: "m \<in> set validation_messages"
      "uploadVideoFile unique url be st fd = (fail (Msg m), st)"
      by blast
    from m(1) have "m \<noteq> ''Authentication required''"
      by (auto simp: validation_messages_def)
    with m show
      "(\<exists>m \<in> set validation_messages.
          uploadVideoFile unique url be st fd = (fail (Msg m), st)) \<and>
       error (fst (uploadVideoFile unique url be st fd)) \<noteq>
         Some (Msg ''Authentication required'') \<and>
       snd (uploadVideoFile unique url be st fd) = st"
      by (auto simp: fail_def)
  qed
  then show ?thesis
    by (simp add: upload_no_file upload_no_project upload_too_big upload_bad_type)
qed

text \<open>
  With nobody signed in, each of the four invalid forms gets its own message and the store
  is untouched; the oversized file gets the same answer from a signed-in caller.
\<close>

theorem upload_validation_precedes_auth_witness:
  "auth_user backend_anonymous = None \<and>
   falsy (form_file form_no_file) \<and>
   uploadVideoFile ''1700000000000_k3x'' (\<lambda>p. ''https://cdn.example/'' @ p)
       backend_anonymous store_ab form_no_file =
     (fail (Msg ''No file provided''), store_ab) \<and>
   falsy (form_projectId form_no_project) \<and>
   uploadVideoFile ''1700000000000_k3x'' (\<lambda>p. ''https://cdn.example/'' @ p)
       backend_anonymous store_ab form_no_project =
     (fail (Msg ''Project ID is required''), store_ab) \<and>
   invalid_upload form_too_big \<and>
   uploadVideoFile ''1700000000000_k3x'' (\<lambda>p. ''https://cdn.example/'' @ p)
       backend_anonymous store_ab form_too_big =
     (fail (Msg ''File size must be less than 100MB''), store_ab) \<and>
   uploadVideoFile ''1700000000000_k3x'' (\<lambda>p. ''https://cdn.example/'' @ p)
       backend_ok store_ab form_too_big =
     (fail (Msg ''File size must be less than 100MB''), store_ab) \<and>
   invalid_upload form_text_file \<and>
   uploadVideoFile ''1700000000000_k3x'' (\<lambda>p. ''https://cdn.example/'' @ p)
       backend_anonymous store_ab form_text_file =
     (fail (Msg ''File type not supported. Please use MP4, MOV, AVI, or WebM''), store_ab) \<and>
   snd (uploadVideoFile ''1700000000000_k3x'' (\<lambda>p. ''https://cdn.example/'' @ p)
          backend_anonymous store_ab form_text_file) = store_ab"
proof -
  let ?up = "uploadVideoFile ''1700000000000_k3x'' (\<lambda>p. ''https://cdn.example/'' @ p)"
  have an: "auth_user backend_anonymous = None"
    by (simp add: backend_anonymous_def)
  have f1: "falsy (form_file form_no_file)"
    by (simp add: form_no_file_def falsy_def)
  have f2: "\<not> falsy (form_file form_no_project) \<and> falsy (form_projectId form_no_project)"
    by (simp add: form_no_project_def form_good_def falsy_def)
  have f3: "form_file form_too_big = Some (FileEntry (clip_mp4\<lparr>file_size := 104857601\<rparr>)) \<and>
            \<not> falsy (form_projectId form_too_big) \<and>
            file_size (clip_mp4\<lparr>file_size := 104857601\<rparr>) > 104857600"
    by (simp add: form_too_big_def form_good_def falsy_def)
  have f4: "form_file form_text_file = Some (FileEntry (clip_mp4\<lparr>file_type := ''text/plain''\<rparr>)) \<and>
            \<not> falsy (form_projectId form_text_file) \<and>
            file_size (clip_mp4\<lparr>file_type := ''text/plain''\<rparr>) \<le> 104857600 \<and>
            file_type (clip_mp4\<lparr>file_type := ''text/plain''\<rparr>) \<notin> set allowedTypes"
    by (simp add: form_text_file_def form_good_def falsy_def clip_mp4_def allowedTypes_def)
  have i3: "invalid_upload form_too_big"
    using f3 by (simp add: invalid_upload_def)
  have i4: "invalid_upload form_text_file"
    using f4 by (simp add: invalid_upload_def)
  note t1 = upload_validation_precedes_auth
              [where fd = form_no_file and be = backend_anonymous and st = store_ab]
  note t2 = upload_validation_precedes_auth
              [where fd = form_no_project and be = backend_anonymous and st = store_ab]
  note t3 = upload_validation_precedes_auth
              [where fd = form_too_big and st = store_ab
                 and f = "clip_mp4\<lparr>file_size := 104857601\<rparr>"]
  note t4 = upload_validation_precedes_auth
              [where fd = form_text_file and be = backend_anonymous and st = store_ab
                 and f = "clip_mp4\<lparr>file_type := ''text/plain''\<rparr>"]
  from t1 f1 have r1: "?up backend_anonymous store_ab form_no_file =
                         (fail (Msg ''No file provided''), store_ab)"
    by blast
  from t2 f2 have r2: "?up backend_anonymous store_ab form_no_project =
                         (fail (Msg ''Project ID is required''), store_ab)"
    by blast
  from t3 f3 have r3: "?up be store_ab form_too_big =
                         (fail (Msg ''File size must be less than 100MB''), store_ab)" for be
    by blast
  from t4 f4 have r4: "?up backend_anonymous store_ab form_text_file =
      (fail (Msg ''File type not supported. Please use MP4, MOV, AVI, or WebM''), store_ab)"
    by blast
  from t4 i4 have r5: "snd (?up backend_anonymous store_ab form_text_file) = store_ab"
    by blast
  from an f1 f2 i3 i4 r1 r2 r3 r4 r5 show ?thesis by blast
qed

end
